theory Spec2Isabelle
  imports Complex_Main
begin

section \<open>The fluid simulation of FluidBackground.js\<close>

text \<open>
  The development embeds the \<^verbatim>\<open>Fluid\<close> class of \<^verbatim>\<open>src/FluidBackground.js\<close> (lines 43-298),
  the two buffer constructors \<^verbatim>\<open>createFBO\<close> and \<^verbatim>\<open>createDoubleFBO\<close> (lines 300-345), the
  resize handler and the cleanup of the React effect. THREE.js, dat.gui and the GPU are
  not part of the repository: objects made with \<^verbatim>\<open>new THREE...\<close> are entries of an object
  table, and every call on the renderer is handed to an executor that is a parameter of
  the model.

  JavaScript numbers are written as reals. The statements below are about which
  value is bound where and about the order of calls; none of them uses a property of
  the arithmetic.
\<close>

subsection \<open>THREE objects and the object table\<close>

type_synonym handle = nat

datatype texture_type = FloatType | HalfFloatType

datatype filter_mode = NearestFilter | LinearFilter

datatype wrap_mode = RepeatWrapping | ClampToEdgeWrapping

text \<open>
  An object made by \<^verbatim>\<open>new THREE.DataTexture(..)\<close> or \<^verbatim>\<open>new THREE.WebGLRenderTarget(..)\<close>,
  with the arguments \<^verbatim>\<open>createFBO\<close> and \<^verbatim>\<open>createRenderTarget\<close> vary: width, height,
  numeric type, the variable \<^verbatim>\<open>wrap\<close> (\<open>None\<close> where it is \<^verbatim>\<open>undefined\<close>) and the
  variable \<^verbatim>\<open>minFilter\<close>. The pixel array of a texture, all zeros, is not kept. The table
  holds every object created so far, a handle is the position in the table. The source
  never calls \<^verbatim>\<open>dispose()\<close> on one of these objects, so no operation of the model removes
  an entry.
\<close>

datatype three_object =
    DataTexture nat nat texture_type "wrap_mode option" filter_mode
  | WebGLRenderTarget nat nat texture_type "wrap_mode option" filter_mode

definition new_object :: "three_object \<Rightarrow> three_object list \<Rightarrow> handle \<times> three_object list" where
  "new_object obj table = (length table, table @ [obj])"

subsection \<open>createFBO and createDoubleFBO\<close>

text \<open>The object literal \<^verbatim>\<open>{ texture, target }\<close> returned by \<^verbatim>\<open>createFBO\<close>.\<close>

record fbo =
  texture :: handle
  target :: handle

definition createFBO ::
  "nat \<Rightarrow> nat \<Rightarrow> texture_type \<Rightarrow> filter_mode \<Rightarrow> wrap_mode option \<Rightarrow> three_object list
    \<Rightarrow> fbo \<times> three_object list" where
  "createFBO w h type minFilter wrap table =
     (let (tex, table1) = new_object (DataTexture w h type wrap minFilter) table;
          (tgt, table2) = new_object (WebGLRenderTarget w h type wrap minFilter) table1
      in (\<lparr>texture = tex, target = tgt\<rparr>, table2))"

text \<open>
  The object returned by \<^verbatim>\<open>createDoubleFBO\<close> has the properties \<^verbatim>\<open>read\<close> and \<^verbatim>\<open>write\<close>,
  initialised from the local variables \<^verbatim>\<open>fbo1\<close> and \<^verbatim>\<open>fbo2\<close>, and the closure \<^verbatim>\<open>swap\<close>,
  which captures those two variables. The record keeps the two properties and the two
  captured variables apart, as the JavaScript does.
\<close>

record doubleFBO =
  read_prop :: fbo
  write_prop :: fbo
  fbo1 :: fbo
  fbo2 :: fbo

text \<open>
  \<^verbatim>\<open>createDoubleFBO(w, h, type, minFilter)\<close> has four parameters and calls
  \<^verbatim>\<open>createFBO(w, h, type, minFilter)\<close>, so \<^verbatim>\<open>wrap\<close> is \<^verbatim>\<open>undefined\<close> in both calls.
\<close>

definition createDoubleFBO ::
  "nat \<Rightarrow> nat \<Rightarrow> texture_type \<Rightarrow> filter_mode \<Rightarrow> three_object list
    \<Rightarrow> doubleFBO \<times> three_object list" where
  "createDoubleFBO w h type minFilter table =
     (let (f1, table1) = createFBO w h type minFilter None table;
          (f2, table2) = createFBO w h type minFilter None table1
      in (\<lparr>read_prop = f1, write_prop = f2, fbo1 = f1, fbo2 = f2\<rparr>, table2))"

text \<open>
  \<^verbatim>\<open>swap: () => { const temp = fbo1; fbo1 = fbo2; fbo2 = temp; }\<close>: the assignments go to
  the captured variables, the properties \<^verbatim>\<open>read\<close> and \<^verbatim>\<open>write\<close> are not assigned.
\<close>

definition swap :: "doubleFBO \<Rightarrow> doubleFBO" where
  "swap d = (let temp = fbo1 d in d\<lparr>fbo1 := fbo2 d, fbo2 := temp\<rparr>)"

subsection \<open>Configuration, uniforms and the Fluid instance\<close>

type_synonym color = "real \<times> real \<times> real"

text \<open>The object \<^verbatim>\<open>config\<close> of lines 22-41 and its initial value.\<close>

record configuration =
  SIM_RESOLUTION :: nat
  DYE_RESOLUTION :: nat
  DENSITY_DISSIPATION :: real
  VELOCITY_DISSIPATION :: real
  PRESSURE :: real
  PRESSURE_ITERATIONS :: nat
  CURL :: real
  SPLAT_RADIUS :: real
  SPLAT_FORCE :: real
  SHADING :: bool
  COLORFUL :: bool
  PAUSED :: bool
  BACK_COLOR :: color
  TRANSPARENT :: bool
  BLOOM :: bool
  BLOOM_THRESHOLD :: real
  BLOOM_STRENGTH :: real
  BLOOM_RADIUS :: real

definition initial_config :: configuration where
  "initial_config =
     \<lparr>SIM_RESOLUTION = 128, DYE_RESOLUTION = 512, DENSITY_DISSIPATION = 0.97,
      VELOCITY_DISSIPATION = 0.99, PRESSURE = 0.8, PRESSURE_ITERATIONS = 20, CURL = 30,
      SPLAT_RADIUS = 0.25, SPLAT_FORCE = 6000, SHADING = True, COLORFUL = True,
      PAUSED = False, BACK_COLOR = (0, 0, 0), TRANSPARENT = False, BLOOM = True,
      BLOOM_THRESHOLD = 0.3, BLOOM_STRENGTH = 1.5, BLOOM_RADIUS = 0\<rparr>"

text \<open>
  The \<^verbatim>\<open>uniforms\<close> object of the shader material (lines 117-128): each field is the
  \<^verbatim>\<open>value\<close> of the uniform of that name. These ten are all the uniforms the material
  has; the uniforms \<^verbatim>\<open>size\<close> and \<^verbatim>\<open>pressure\<close> carry a suffix here. A texture uniform is
  \<open>None\<close> for \<^verbatim>\<open>null\<close>.
\<close>

record uniforms =
  dyeTexture :: "handle option"
  velocityTexture :: "handle option"
  time :: real
  size_uniform :: "nat \<times> nat"
  deltaT :: real
  dissipation :: real
  velocityDissipation :: real
  pressure_uniform :: real
  curlStrength :: real
  splatRadius :: real

text \<open>
  One call \<^verbatim>\<open>renderer.render(this.mesh, this.camera)\<close>: the render target bound at
  that moment (\<open>None\<close> for \<^verbatim>\<open>null\<close>, the canvas) and the uniforms of the mesh's material
  at that moment.
\<close>

record pass =
  pass_target :: "fbo option"
  pass_uniforms :: uniforms

text \<open>
  A \<^verbatim>\<open>Fluid\<close> instance together with what it reaches: the renderer (its capability
  flag, its bound render target, the passes it has rendered and the GPU memory \<open>'g\<close>
  behind it) and the table of THREE objects. The fields \<^verbatim>\<open>pointers\<close> (always the empty
  array), \<^verbatim>\<open>mesh\<close> (a plane carrying \<^verbatim>\<open>material\<close>) and \<^verbatim>\<open>camera\<close> (never assigned) have no
  influence on the code below and are left out. \<^verbatim>\<open>this.config\<close> and the variable \<^verbatim>\<open>config\<close>
  are one object, the field \<open>config\<close>.
\<close>

record 'g fluid =
  floatGPGPU :: bool
  bound_target :: "fbo option"
  rendered :: "pass list"
  gpu :: 'g
  objects :: "three_object list"
  size_xy :: "nat \<times> nat"
  config :: configuration
  dye :: doubleFBO
  velocity :: doubleFBO
  divergence :: fbo
  curl :: fbo
  pressure :: doubleFBO
  material :: uniforms
  renderTarget :: handle

subsection \<open>Statements, exceptions and the renderer\<close>

text \<open>
  \<open>Thrown\<close> stands for an exception raised by code outside the repository (THREE.js).
  A statement returns or raises, and in both cases leaves a state: what a JavaScript
  statement has assigned before it throws stays assigned.
\<close>

datatype error = TypeError | Thrown string

datatype outcome = Returned | Raised error

type_synonym 'g stmt = "'g fluid \<Rightarrow> outcome \<times> 'g fluid"

definition assign :: "('g fluid \<Rightarrow> 'g fluid) \<Rightarrow> 'g stmt" where
  "assign f s = (Returned, f s)"

definition throw :: "error \<Rightarrow> 'g stmt" where
  "throw e s = (Raised e, s)"

fun seqs :: "'g stmt list \<Rightarrow> 'g stmt" where
  "seqs [] s = (Returned, s)"
| "seqs (c # cs) s =
     (case c s of (Returned, s') \<Rightarrow> seqs cs s' | (Raised e, s') \<Rightarrow> (Raised e, s'))"

text \<open>
  The two calls the class makes on the renderer: \<^verbatim>\<open>setRenderTarget(t)\<close>, where \<open>t\<close> is
  \<^verbatim>\<open>null\<close> or the plain object \<^verbatim>\<open>{ texture, target }\<close> of \<^verbatim>\<open>createFBO\<close> as the source hands
  it over, and \<^verbatim>\<open>render(this.mesh, this.camera)\<close>. The executor is what the renderer does
  with a call, given the GPU memory: it returns or raises. The renderer is not code
  of the repository, so the executor is a parameter.
\<close>

datatype renderer_call = SetRenderTarget "fbo option" | Render pass

type_synonym 'g executor = "renderer_call \<Rightarrow> 'g \<Rightarrow> outcome \<times> 'g"

text \<open>
  A call of \<^verbatim>\<open>setRenderTarget\<close> that returns has bound its argument. Where it raises,
  the field \<open>bound_target\<close> keeps its value: the method that made the call is left at
  once, and every \<^verbatim>\<open>render\<close> in the class comes after a \<^verbatim>\<open>setRenderTarget\<close> of the same
  method that has returned.
\<close>

definition setRenderTarget :: "'g executor \<Rightarrow> fbo option \<Rightarrow> 'g stmt" where
  "setRenderTarget R t s =
     (case R (SetRenderTarget t) (gpu s) of
        (Returned, g') \<Rightarrow> (Returned, s\<lparr>bound_target := t, gpu := g'\<rparr>)
      | (Raised e, g') \<Rightarrow> (Raised e, s\<lparr>gpu := g'\<rparr>))"

text \<open>A call of \<^verbatim>\<open>render\<close> that returns is added to the log of passes.\<close>

definition render :: "'g executor \<Rightarrow> 'g stmt" where
  "render R s =
     (let p = \<lparr>pass_target = bound_target s, pass_uniforms = material s\<rparr>
      in case R (Render p) (gpu s) of
           (Returned, g') \<Rightarrow> (Returned, s\<lparr>rendered := rendered s @ [p], gpu := g'\<rparr>)
         | (Raised e, g') \<Rightarrow> (Raised e, s\<lparr>gpu := g'\<rparr>))"

subsection \<open>The methods of class Fluid\<close>

definition texture_type_of :: "'g fluid \<Rightarrow> texture_type" where
  "texture_type_of s = (if floatGPGPU s then FloatType else HalfFloatType)"

text \<open>
  \<^verbatim>\<open>createTextures\<close> (lines 63-108). The fifth argument \<^verbatim>\<open>THREE.RepeatWrapping\<close> of the
  call for \<^verbatim>\<open>pressure\<close> has no parameter to land in. Line 103 reads
  \<^verbatim>\<open>this.dye.texture.name = "Fluid.dye"\<close>: \<^verbatim>\<open>this.dye\<close> is a Double Buffer, which has no
  property \<^verbatim>\<open>texture\<close>, so the assignment to \<^verbatim>\<open>undefined.name\<close> raises a TypeError.
\<close>

definition createTextures :: "'g stmt" where
  "createTextures s =
     (let sim = SIM_RESOLUTION (config s); dyeres = DYE_RESOLUTION (config s);
          type = texture_type_of s
      in seqs
        [assign (\<lambda>s. let (d, t) = createDoubleFBO dyeres dyeres type LinearFilter (objects s)
                      in s\<lparr>dye := d, objects := t\<rparr>),
         assign (\<lambda>s. let (d, t) = createDoubleFBO sim sim type LinearFilter (objects s)
                      in s\<lparr>velocity := d, objects := t\<rparr>),
         assign (\<lambda>s. let (f, t) = createFBO sim sim type NearestFilter (Some RepeatWrapping) (objects s)
                      in s\<lparr>divergence := f, objects := t\<rparr>),
         assign (\<lambda>s. let (f, t) = createFBO sim sim type NearestFilter (Some RepeatWrapping) (objects s)
                      in s\<lparr>curl := f, objects := t\<rparr>),
         assign (\<lambda>s. let (d, t) = createDoubleFBO sim sim type NearestFilter (objects s)
                      in s\<lparr>pressure := d, objects := t\<rparr>),
         throw TypeError] s)"

text \<open>
  \<^verbatim>\<open>createMaterial\<close> (lines 110-207): the uniform values are numbers copied out of
  \<^verbatim>\<open>config\<close> and \<^verbatim>\<open>this.size\<close> when the material is made.
\<close>

definition createMaterial :: "'g stmt" where
  "createMaterial =
     assign (\<lambda>s. s\<lparr>material :=
       \<lparr>dyeTexture = None, velocityTexture = None, time = 0, size_uniform = size_xy s,
        deltaT = 0, dissipation = DENSITY_DISSIPATION (config s),
        velocityDissipation = VELOCITY_DISSIPATION (config s),
        pressure_uniform = PRESSURE (config s), curlStrength = CURL (config s),
        splatRadius = SPLAT_RADIUS (config s)\<rparr>\<rparr>)"

definition createRenderTarget :: "'g stmt" where
  "createRenderTarget =
     assign (\<lambda>s. let (h, t) = new_object
                        (WebGLRenderTarget (fst (size_xy s)) (snd (size_xy s)) (texture_type_of s)
                           (Some ClampToEdgeWrapping) LinearFilter) (objects s)
                  in s\<lparr>renderTarget := h, objects := t\<rparr>)"

text \<open>
  \<^verbatim>\<open>createGeometry\<close> makes the mesh from \<^verbatim>\<open>this.material\<close>; \<^verbatim>\<open>initGUI\<close> makes the panel
  whose controls are bound to \<^verbatim>\<open>this.config\<close>. Neither assigns a field of the model.
\<close>

definition createGeometry :: "'g stmt" where
  "createGeometry = assign (\<lambda>s. s)"

definition initGUI :: "'g stmt" where
  "initGUI = assign (\<lambda>s. s)"

definition init :: "'g stmt" where
  "init = seqs [createTextures, createMaterial, createRenderTarget, createGeometry, initGUI]"

text \<open>
  A control of the panel made by \<^verbatim>\<open>initGUI\<close> (lines 234-246), moved to a value:
  dat.gui assigns the value to the property of \<^verbatim>\<open>this.config\<close> it was added for.
\<close>

datatype gui_event =
    Set_DENSITY_DISSIPATION real
  | Set_VELOCITY_DISSIPATION real
  | Set_PRESSURE real
  | Set_CURL real
  | Set_SPLAT_RADIUS real
  | Set_PAUSED bool

fun gui_change :: "gui_event \<Rightarrow> 'g fluid \<Rightarrow> 'g fluid" where
  "gui_change (Set_DENSITY_DISSIPATION v) s = s\<lparr>config := (config s)\<lparr>DENSITY_DISSIPATION := v\<rparr>\<rparr>"
| "gui_change (Set_VELOCITY_DISSIPATION v) s = s\<lparr>config := (config s)\<lparr>VELOCITY_DISSIPATION := v\<rparr>\<rparr>"
| "gui_change (Set_PRESSURE v) s = s\<lparr>config := (config s)\<lparr>PRESSURE := v\<rparr>\<rparr>"
| "gui_change (Set_CURL v) s = s\<lparr>config := (config s)\<lparr>CURL := v\<rparr>\<rparr>"
| "gui_change (Set_SPLAT_RADIUS v) s = s\<lparr>config := (config s)\<lparr>SPLAT_RADIUS := v\<rparr>\<rparr>"
| "gui_change (Set_PAUSED v) s = s\<lparr>config := (config s)\<lparr>PAUSED := v\<rparr>\<rparr>"

text \<open>\<^verbatim>\<open>update(dt)\<close>, lines 248-273, statement by statement.\<close>

definition update :: "'g executor \<Rightarrow> real \<Rightarrow> 'g stmt" where
  "update R dt s =
     (if \<not> PAUSED (config s) then
        seqs
          [assign (\<lambda>s. s\<lparr>material := (material s)\<lparr>time := time (material s) + dt\<rparr>\<rparr>),
           assign (\<lambda>s. s\<lparr>material := (material s)\<lparr>deltaT := dt\<rparr>\<rparr>),

           (\<lambda>s. setRenderTarget R (Some (write_prop (dye s))) s),
           render R,
           assign (\<lambda>s. s\<lparr>dye := swap (dye s)\<rparr>),

           (\<lambda>s. setRenderTarget R (Some (write_prop (velocity s))) s),
           render R,
           assign (\<lambda>s. s\<lparr>velocity := swap (velocity s)\<rparr>),

           (\<lambda>s. setRenderTarget R (Some (divergence s)) s),
           render R,

           (\<lambda>s. setRenderTarget R (Some (curl s)) s),
           render R,

           (\<lambda>s. setRenderTarget R (Some (write_prop (pressure s))) s),
           render R,
           assign (\<lambda>s. s\<lparr>pressure := swap (pressure s)\<rparr>),

           setRenderTarget R None] s
      else (Returned, s))"

text \<open>
  \<^verbatim>\<open>splat(x, y, dx, dy, color)\<close>, lines 275-297. Lines 283-284 assign to
  \<^verbatim>\<open>uniforms.splatForce.value\<close>; the material has no uniform \<^verbatim>\<open>splatForce\<close>, so
  \<^verbatim>\<open>uniforms.splatForce\<close> is \<^verbatim>\<open>undefined\<close> and the assignment raises a TypeError (the
  right-hand side, \<^verbatim>\<open>SPLAT_FORCE * Math.max(this.size.x, this.size.y)\<close>, has no effect of
  its own). The same statement stands again at lines 290-291.
\<close>

definition assign_splatForce :: "'g stmt" where
  "assign_splatForce = throw TypeError"

definition splat :: "'g executor \<Rightarrow> real \<Rightarrow> real \<Rightarrow> real \<Rightarrow> real \<Rightarrow> color \<Rightarrow> 'g stmt" where
  "splat R x y dx dy color =
     seqs
       [assign (\<lambda>s. s\<lparr>material := (material s)\<lparr>dyeTexture := Some (texture (read_prop (dye s)))\<rparr>\<rparr>),
        assign (\<lambda>s. s\<lparr>material :=
                  (material s)\<lparr>velocityTexture := Some (texture (read_prop (velocity s)))\<rparr>\<rparr>),

        assign (\<lambda>s. s\<lparr>material := (material s)\<lparr>splatRadius := SPLAT_RADIUS (config s) / 100\<rparr>\<rparr>),
        assign_splatForce,
        (\<lambda>s. setRenderTarget R (Some (write_prop (dye s))) s),
        render R,
        assign (\<lambda>s. s\<lparr>dye := swap (dye s)\<rparr>),

        assign (\<lambda>s. s\<lparr>material := (material s)\<lparr>splatRadius := SPLAT_RADIUS (config s) / 100\<rparr>\<rparr>),
        assign_splatForce,
        (\<lambda>s. setRenderTarget R (Some (write_prop (velocity s))) s),
        render R,
        assign (\<lambda>s. s\<lparr>velocity := swap (velocity s)\<rparr>),

        setRenderTarget R None]"

subsection \<open>The resize handler and the cleanup\<close>

text \<open>
  \<^verbatim>\<open>onWindowResize\<close> (lines 518-534), the part that acts on the simulation:
  \<^verbatim>\<open>size.x = width; size.y = height; createRenderTarget()\<close>. Its other statements
  resize the camera, the renderer, the two composers and the background material.
\<close>

definition onWindowResize :: "nat \<Rightarrow> nat \<Rightarrow> 'g stmt" where
  "onWindowResize width height =
     seqs
       [assign (\<lambda>s. s\<lparr>size_xy := (width, snd (size_xy s))\<rparr>),
        assign (\<lambda>s. s\<lparr>size_xy := (fst (size_xy s), height)\<rparr>),
        createRenderTarget]"

text \<open>
  The members class \<^verbatim>\<open>Fluid\<close> declares (lines 43-298). The class extends nothing and no
  one assigns a function to an instance, so a call \<^verbatim>\<open>instance.name()\<close> runs the method
  of that name if the class declares it; otherwise \<^verbatim>\<open>instance.name\<close> is \<^verbatim>\<open>undefined\<close>
  and the call raises a TypeError.
\<close>

definition Fluid_methods :: "string list" where
  "Fluid_methods =
     [''constructor'', ''init'', ''createTextures'', ''createMaterial'', ''createRenderTarget'',
      ''createGeometry'', ''initGUI'', ''update'', ''splat'']"

definition call_method :: "string \<Rightarrow> 'g stmt \<Rightarrow> 'g stmt" where
  "call_method name body = (if name \<in> set Fluid_methods then body else throw TypeError)"

subsection \<open>A concrete instance\<close>

text \<open>
  An executor to run the model with, one that accepts every call: the GPU memory is
  the list of the targets rendered into, and a render call appends its target.
\<close>

definition log_executor :: "(fbo option list) executor" where
  "log_executor c g =
     (Returned, (case c of SetRenderTarget t \<Rightarrow> g | Render p \<Rightarrow> g @ [pass_target p]))"

text \<open>
  The instance the constructor's field assignments describe for an 800 by 600 canvas
  with float textures: the fields of lines 45-51, then the buffers \<^verbatim>\<open>createTextures\<close>
  assigns at lines 69-101, then \<^verbatim>\<open>createMaterial\<close> and \<^verbatim>\<open>createRenderTarget\<close>. The
  fields the three methods assign start from placeholders.
\<close>

definition constructed :: "(fbo option list) fluid" where
  "constructed =
     (let f0 = \<lparr>texture = 0, target = 0\<rparr>;
          d0 = \<lparr>read_prop = f0, write_prop = f0, fbo1 = f0, fbo2 = f0\<rparr>
      in \<lparr>floatGPGPU = True, bound_target = None, rendered = [], gpu = [], objects = [],
          size_xy = (800, 600), config = initial_config,
          dye = d0, velocity = d0, divergence = f0, curl = f0, pressure = d0,
          material = \<lparr>dyeTexture = None, velocityTexture = None, time = 0, size_uniform = (0, 0),
                      deltaT = 0, dissipation = 0, velocityDissipation = 0, pressure_uniform = 0,
                      curlStrength = 0, splatRadius = 0\<rparr>,
          renderTarget = 0\<rparr>)"

definition example_fluid :: "(fbo option list) fluid" where
  "example_fluid = snd (createRenderTarget (snd (createMaterial (snd (createTextures constructed)))))"

section \<open>Properties\<close>

subsection \<open>Evaluation lemmas\<close>

lemma swap_read: "read_prop (swap d) = read_prop d"
  by (simp add: swap_def Let_def)

lemma swap_write: "write_prop (swap d) = write_prop d"
  by (simp add: swap_def Let_def)

lemma createFBO_eval:
  "createFBO w h type minFilter wrap table =
     (\<lparr>texture = length table, target = Suc (length table)\<rparr>,
      table @ [DataTexture w h type wrap minFilter, WebGLRenderTarget w h type wrap minFilter])"
  by (simp add: createFBO_def new_object_def)

lemma createDoubleFBO_eval:
  "createDoubleFBO w h type minFilter table =
     (\<lparr>read_prop = \<lparr>texture = length table, target = Suc (length table)\<rparr>,
       write_prop = \<lparr>texture = Suc (Suc (length table)), target = Suc (Suc (Suc (length table)))\<rparr>,
       fbo1 = \<lparr>texture = length table, target = Suc (length table)\<rparr>,
       fbo2 = \<lparr>texture = Suc (Suc (length table)), target = Suc (Suc (Suc (length table)))\<rparr>\<rparr>,
      table @ [DataTexture w h type None minFilter, WebGLRenderTarget w h type None minFilter,
               DataTexture w h type None minFilter, WebGLRenderTarget w h type None minFilter])"
  by (simp add: createDoubleFBO_def createFBO_eval)

lemma seqs_assign: "seqs (assign f # cs) s = seqs cs (f s)"
  by (simp add: assign_def)

lemma seqs_throw: "seqs (throw e # cs) s = (Raised e, s)"
  by (simp add: throw_def)

subsection \<open>A renderer that accepts every call\<close>

text \<open>
  Where the executor returns, \<^verbatim>\<open>setRenderTarget\<close> binds its argument and \<^verbatim>\<open>render\<close>
  appends the pass; both store the new GPU memory.
\<close>

lemma setRenderTarget_returns:
  assumes "\<forall>c g. fst (R c g) = Returned"
  shows "setRenderTarget R t s =
     (Returned, s\<lparr>bound_target := t, gpu := snd (R (SetRenderTarget t) (gpu s))\<rparr>)"
proof -
  obtain res g' where r: "R (SetRenderTarget t) (gpu s) = (res, g')"
    by (cases "R (SetRenderTarget t) (gpu s)")
  with assms have "res = Returned"
    by (metis fst_conv)
  with r show ?thesis
    by (simp add: setRenderTarget_def)
qed

lemma seqs_setRenderTarget:
  assumes "\<forall>c g. fst (R c g) = Returned"
  shows "seqs ((\<lambda>s. setRenderTarget R (t s) s) # cs) s =
     seqs cs (s\<lparr>bound_target := t s, gpu := snd (R (SetRenderTarget (t s)) (gpu s))\<rparr>)"
  by (simp add: setRenderTarget_returns [OF assms])

lemma seqs_setRenderTarget_const:
  assumes "\<forall>c g. fst (R c g) = Returned"
  shows "seqs (setRenderTarget R t # cs) s =
     seqs cs (s\<lparr>bound_target := t, gpu := snd (R (SetRenderTarget t) (gpu s))\<rparr>)"
  by (simp add: setRenderTarget_returns [OF assms])

lemma render_returns:
  assumes "\<forall>c g. fst (R c g) = Returned"
  shows "render R s =
     (Returned,
      s\<lparr>rendered := rendered s @ [\<lparr>pass_target = bound_target s, pass_uniforms = material s\<rparr>],
        gpu := snd (R (Render \<lparr>pass_target = bound_target s, pass_uniforms = material s\<rparr>) (gpu s))\<rparr>)"
proof -
  obtain res g' where r:
    "R (Render \<lparr>pass_target = bound_target s, pass_uniforms = material s\<rparr>) (gpu s) = (res, g')"
    by (cases "R (Render \<lparr>pass_target = bound_target s, pass_uniforms = material s\<rparr>) (gpu s)")
  with assms have "res = Returned"
    by (metis fst_conv)
  with r show ?thesis
    by (simp add: render_def Let_def)
qed

lemma seqs_render:
  assumes "\<forall>c g. fst (R c g) = Returned"
  shows "seqs (render R # cs) s =
     seqs cs
       (s\<lparr>rendered := rendered s @ [\<lparr>pass_target = bound_target s, pass_uniforms = material s\<rparr>],
          gpu := snd (R (Render \<lparr>pass_target = bound_target s, pass_uniforms = material s\<rparr>) (gpu s))\<rparr>)"
  by (simp add: render_returns [OF assms])

lemma update_returns:
  assumes "\<not> PAUSED (config s)" and "\<forall>c g. fst (R c g) = Returned"
  shows "fst (update R dt s) = Returned"
  using assms(1)
  by (simp add: update_def seqs_assign seqs_setRenderTarget [OF assms(2)]
      seqs_setRenderTarget_const [OF assms(2)] seqs_render [OF assms(2)] del: seqs.simps(2))

lemma update_rendered:
  assumes "\<not> PAUSED (config s)" and "\<forall>c g. fst (R c g) = Returned"
  shows "rendered (snd (update R dt s)) =
     rendered s @
     map (\<lambda>t. \<lparr>pass_target = Some t,
                pass_uniforms = (material s)\<lparr>time := time (material s) + dt, deltaT := dt\<rparr>\<rparr>)
       [write_prop (dye s), write_prop (velocity s), divergence s, curl s, write_prop (pressure s)]"
  using assms(1)
  by (simp add: update_def seqs_assign seqs_setRenderTarget [OF assms(2)]
      seqs_setRenderTarget_const [OF assms(2)] seqs_render [OF assms(2)] swap_write del: seqs.simps(2))

lemma update_fields:
  assumes "\<not> PAUSED (config s)" and "\<forall>c g. fst (R c g) = Returned"
  shows "dye (snd (update R dt s)) = swap (dye s)"
    and "velocity (snd (update R dt s)) = swap (velocity s)"
    and "pressure (snd (update R dt s)) = swap (pressure s)"
    and "divergence (snd (update R dt s)) = divergence s"
    and "curl (snd (update R dt s)) = curl s"
    and "config (snd (update R dt s)) = config s"
    and "objects (snd (update R dt s)) = objects s"
    and "bound_target (snd (update R dt s)) = None"
    and "material (snd (update R dt s)) = (material s)\<lparr>time := time (material s) + dt, deltaT := dt\<rparr>"
  using assms(1)
  by (simp_all add: update_def seqs_assign seqs_setRenderTarget [OF assms(2)]
      seqs_setRenderTarget_const [OF assms(2)] seqs_render [OF assms(2)] del: seqs.simps(2))

text \<open>
  The constructor cannot complete: \<^verbatim>\<open>createTextures\<close> raises at line 103 whatever the
  instance, and \<^verbatim>\<open>init\<close> calls it first.
\<close>

lemma createTextures_raises: "fst (createTextures s) = Raised TypeError"
  by (simp add: createTextures_def Let_def seqs_assign seqs_throw split_beta del: seqs.simps(2))

lemma init_raises: "fst (init s) = Raised TypeError"
proof -
  obtain s' where "createTextures s = (Raised TypeError, s')"
    using createTextures_raises [of s] by (cases "createTextures s") simp
  then show ?thesis by (simp add: init_def)
qed

lemma log_executor_returns: "\<forall>c g. fst (log_executor c g) = Returned"
  by (simp add: log_executor_def)

lemma example_fluid_eval:
  "example_fluid =
     \<lparr>floatGPGPU = True, bound_target = None, rendered = [], gpu = [],
      objects =
        [DataTexture 512 512 FloatType None LinearFilter,
         WebGLRenderTarget 512 512 FloatType None LinearFilter,
         DataTexture 512 512 FloatType None LinearFilter,
         WebGLRenderTarget 512 512 FloatType None LinearFilter,
         DataTexture 128 128 FloatType None LinearFilter,
         WebGLRenderTarget 128 128 FloatType None LinearFilter,
         DataTexture 128 128 FloatType None LinearFilter,
         WebGLRenderTarget 128 128 FloatType None LinearFilter,
         DataTexture 128 128 FloatType (Some RepeatWrapping) NearestFilter,
         WebGLRenderTarget 128 128 FloatType (Some RepeatWrapping) NearestFilter,
         DataTexture 128 128 FloatType (Some RepeatWrapping) NearestFilter,
         WebGLRenderTarget 128 128 FloatType (Some RepeatWrapping) NearestFilter,
         DataTexture 128 128 FloatType None NearestFilter,
         WebGLRenderTarget 128 128 FloatType None NearestFilter,
         DataTexture 128 128 FloatType None NearestFilter,
         WebGLRenderTarget 128 128 FloatType None NearestFilter,
         WebGLRenderTarget 800 600 FloatType (Some ClampToEdgeWrapping) LinearFilter],
      size_xy = (800, 600),
      config = initial_config,
      dye = \<lparr>read_prop = \<lparr>texture = 0, target = 1\<rparr>, write_prop = \<lparr>texture = 2, target = 3\<rparr>,
             fbo1 = \<lparr>texture = 0, target = 1\<rparr>, fbo2 = \<lparr>texture = 2, target = 3\<rparr>\<rparr>,
      velocity = \<lparr>read_prop = \<lparr>texture = 4, target = 5\<rparr>, write_prop = \<lparr>texture = 6, target = 7\<rparr>,
                  fbo1 = \<lparr>texture = 4, target = 5\<rparr>, fbo2 = \<lparr>texture = 6, target = 7\<rparr>\<rparr>,
      divergence = \<lparr>texture = 8, target = 9\<rparr>,
      curl = \<lparr>texture = 10, target = 11\<rparr>,
      pressure = \<lparr>read_prop = \<lparr>texture = 12, target = 13\<rparr>, write_prop = \<lparr>texture = 14, target = 15\<rparr>,
                  fbo1 = \<lparr>texture = 12, target = 13\<rparr>, fbo2 = \<lparr>texture = 14, target = 15\<rparr>\<rparr>,
      material = \<lparr>dyeTexture = None, velocityTexture = None, time = 0, size_uniform = (800, 600),
                  deltaT = 0, dissipation = 0.97, velocityDissipation = 0.99, pressure_uniform = 0.8,
                  curlStrength = 30, splatRadius = 0.25\<rparr>,
      renderTarget = 16\<rparr>"
  by (simp add: example_fluid_def constructed_def createTextures_def createMaterial_def
      createRenderTarget_def createDoubleFBO_eval createFBO_eval new_object_def initial_config_def
      texture_type_of_def seqs_assign seqs_throw assign_def Let_def del: seqs.simps(2))

subsection \<open>The Double Buffer\<close>

text \<open>
  C1 (the code departs from the claim). For the Double Buffer returned by
  \<^verbatim>\<open>createDoubleFBO(128, 128, FloatType, LinearFilter)\<close> on an empty object table, the
  two properties hold different buffers, and after \<^verbatim>\<open>swap()\<close> the property \<^verbatim>\<open>read\<close> still
  holds the buffer it held before and so does \<^verbatim>\<open>write\<close>: the buffer that was reachable
  through \<^verbatim>\<open>write\<close> is not reachable through \<^verbatim>\<open>read\<close>. Only the captured variables are
  exchanged.
\<close>

theorem C1_swap_leaves_read_write:
  "(let d = fst (createDoubleFBO 128 128 FloatType LinearFilter [])
    in read_prop d \<noteq> write_prop d
       \<and> read_prop (swap d) = read_prop d \<and> write_prop (swap d) = write_prop d
       \<and> read_prop (swap d) \<noteq> write_prop d
       \<and> fbo1 (swap d) = fbo2 d \<and> fbo2 (swap d) = fbo1 d)"
  by (simp add: createDoubleFBO_eval swap_def Let_def)

subsection \<open>The per-frame step\<close>

text \<open>
  C2. With the pause flag set, \<^verbatim>\<open>update(dt)\<close> returns and leaves the whole state as it
  was, for every state, every \<open>dt\<close> and every executor: no pass is added to the log,
  the GPU memory behind the five fields is the same, and so is every other field.
\<close>

theorem C2_paused_update_unchanged:
  "PAUSED (config s) \<Longrightarrow> update R dt s = (Returned, s)"
  by (simp add: update_def)

text \<open>The paused instance: the example with the panel's \<^verbatim>\<open>paused\<close> box ticked.\<close>

theorem C2_paused_update_unchanged_witness:
  "PAUSED (config (gui_change (Set_PAUSED True) example_fluid))
   \<and> update log_executor 0.016 (gui_change (Set_PAUSED True) example_fluid)
       = (Returned, gui_change (Set_PAUSED True) example_fluid)
   \<and> rendered (snd (update log_executor 0.016 (gui_change (Set_PAUSED True) example_fluid))) = []"
  using C2_paused_update_unchanged [of "gui_change (Set_PAUSED True) example_fluid" log_executor "0.016"]
  by (simp add: example_fluid_eval)

text \<open>
  What one unpaused \<^verbatim>\<open>update\<close> renders, with a renderer that accepts every call, is
  fixed by the material and the five targets; a move of a panel control beforehand
  leaves both as they were.
\<close>

lemma gui_change_fields:
  "material (gui_change e s) = material s"
  "rendered (gui_change e s) = rendered s"
  "dye (gui_change e s) = dye s"
  "velocity (gui_change e s) = velocity s"
  "divergence (gui_change e s) = divergence s"
  "curl (gui_change e s) = curl s"
  "pressure (gui_change e s) = pressure s"
  by (cases e; simp)+

lemma update_after_gui_change:
  assumes "\<not> PAUSED (config (gui_change e s))" and "\<forall>c g. fst (R c g) = Returned"
  shows "rendered (snd (update R dt (gui_change e s))) =
     rendered s @
     map (\<lambda>t. \<lparr>pass_target = Some t,
                pass_uniforms = (material s)\<lparr>time := time (material s) + dt, deltaT := dt\<rparr>\<rparr>)
       [write_prop (dye s), write_prop (velocity s), divergence s, curl s, write_prop (pressure s)]"
  by (simp add: update_rendered [OF assms] gui_change_fields)

lemma example_not_paused: "\<not> PAUSED (config example_fluid)"
  by (simp add: example_fluid_eval initial_config_def)

subsection \<open>The step under any renderer\<close>

text \<open>
  Bind a target, then render: the first call raises, or the second does, or there is
  one pass more and the rest of the statements runs.
\<close>

lemma target_render_cases:
  assumes "\<And>g. Q (s\<lparr>gpu := g\<rparr>)"
    and "\<And>g. Q (s\<lparr>bound_target := t s, gpu := g\<rparr>)"
    and "\<And>g. Q (snd (seqs cs
            (s\<lparr>bound_target := t s,
               rendered := rendered s @ [\<lparr>pass_target = t s, pass_uniforms = material s\<rparr>],
               gpu := g\<rparr>)))"
  shows "Q (snd (seqs ((\<lambda>s. setRenderTarget R (t s) s) # render R # cs) s))"
proof -
  obtain r1 g1 where c1: "R (SetRenderTarget (t s)) (gpu s) = (r1, g1)"
    by (cases "R (SetRenderTarget (t s)) (gpu s)")
  show ?thesis
  proof (cases r1)
    case (Raised e)
    with c1 assms(1) [of g1] show ?thesis
      by (simp add: setRenderTarget_def)
  next
    case Returned
    obtain r2 g2 where c2:
      "R (Render \<lparr>pass_target = t s, pass_uniforms = material s\<rparr>) g1 = (r2, g2)"
      by (cases "R (Render \<lparr>pass_target = t s, pass_uniforms = material s\<rparr>) g1")
    show ?thesis
    proof (cases r2)
      case (Raised e)
      with c1 c2 Returned assms(2) [of g2] show ?thesis
        by (simp add: setRenderTarget_def render_def Let_def)
    next
      case second: Returned
      with c1 c2 Returned assms(3) [of g2] show ?thesis
        by (simp add: setRenderTarget_def render_def Let_def)
    qed
  qed
qed

lemma last_target_cases:
  assumes "\<And>g. Q (s\<lparr>gpu := g\<rparr>)" and "\<And>g. Q (s\<lparr>bound_target := t, gpu := g\<rparr>)"
  shows "Q (snd (seqs [setRenderTarget R t] s))"
proof -
  obtain r1 g1 where c1: "R (SetRenderTarget t) (gpu s) = (r1, g1)"
    by (cases "R (SetRenderTarget t) (gpu s)")
  show ?thesis
  proof (cases r1)
    case (Raised e)
    with c1 assms(1) [of g1] show ?thesis
      by (simp add: setRenderTarget_def)
  next
    case Returned
    with c1 assms(2) [of g1] show ?thesis
      by (simp add: setRenderTarget_def)
  qed
qed

text \<open>
  Whatever the renderer does, the passes one call of \<^verbatim>\<open>update\<close> adds to the log are
  an initial segment of the five passes of lines 253-268, taken stage by stage from
  the last statement backwards.
\<close>

lemma update_new_passes:
  "drop (length (rendered s)) (rendered (snd (update R dt s))) =
     take (length (rendered (snd (update R dt s))) - length (rendered s))
       (map (\<lambda>t. \<lparr>pass_target = Some t,
                  pass_uniforms = (material s)\<lparr>time := time (material s) + dt, deltaT := dt\<rparr>\<rparr>)
          [write_prop (dye s), write_prop (velocity s), divergence s, curl s, write_prop (pressure s)])"
proof (cases "PAUSED (config s)")
  case True
  then show ?thesis by (simp add: update_def)
next
  case False
  let ?m = "(material s)\<lparr>time := time (material s) + dt, deltaT := dt\<rparr>"
  let ?p = "\<lambda>t. \<lparr>pass_target = Some t, pass_uniforms = ?m\<rparr>"
  let ?E = "[?p (write_prop (dye s)), ?p (write_prop (velocity s)), ?p (divergence s),
             ?p (curl s), ?p (write_prop (pressure s))]"
  let ?Q = "\<lambda>s'::'a fluid. drop (length (rendered s)) (rendered s') =
              take (length (rendered s') - length (rendered s)) ?E"
  let ?same = "\<lambda>S::'a fluid. material S = ?m
      \<and> write_prop (dye S) = write_prop (dye s) \<and> write_prop (velocity S) = write_prop (velocity s)
      \<and> divergence S = divergence s \<and> curl S = curl s
      \<and> write_prop (pressure S) = write_prop (pressure s)"
  let ?c1 = "\<lambda>s::'a fluid. setRenderTarget R (Some (write_prop (dye s))) s"
  let ?c2 = "\<lambda>s::'a fluid. setRenderTarget R (Some (write_prop (velocity s))) s"
  let ?c3 = "\<lambda>s::'a fluid. setRenderTarget R (Some (divergence s)) s"
  let ?c4 = "\<lambda>s::'a fluid. setRenderTarget R (Some (curl s)) s"
  let ?c5 = "\<lambda>s::'a fluid. setRenderTarget R (Some (write_prop (pressure s))) s"
  let ?a1 = "assign (\<lambda>s::'a fluid. s\<lparr>dye := swap (dye s)\<rparr>)"
  let ?a2 = "assign (\<lambda>s::'a fluid. s\<lparr>velocity := swap (velocity s)\<rparr>)"
  let ?a5 = "assign (\<lambda>s::'a fluid. s\<lparr>pressure := swap (pressure s)\<rparr>)"
  have s6: "?Q (snd (seqs [setRenderTarget R None] S))"
    if "rendered S = rendered s @ ?E" for S
    by (rule last_target_cases [where Q = ?Q]) (simp_all add: that)
  have s5: "?Q (snd (seqs [?c5, render R, ?a5, setRenderTarget R None] S))"
    if "?same S" and "rendered S = rendered s @ take 4 ?E" for S
  proof (rule target_render_cases [where Q = ?Q])
    fix g
    show "?Q (S\<lparr>gpu := g\<rparr>)" using that by simp
    show "?Q (S\<lparr>bound_target := Some (write_prop (pressure S)), gpu := g\<rparr>)" using that by simp
    show "?Q (snd (seqs [?a5, setRenderTarget R None]
            (S\<lparr>bound_target := Some (write_prop (pressure S)),
               rendered := rendered S @
                 [\<lparr>pass_target = Some (write_prop (pressure S)), pass_uniforms = material S\<rparr>],
               gpu := g\<rparr>)))"
      unfolding seqs_assign by (rule s6) (simp add: that)
  qed
  have s4: "?Q (snd (seqs [?c4, render R, ?c5, render R, ?a5, setRenderTarget R None] S))"
    if "?same S" and "rendered S = rendered s @ take 3 ?E" for S
  proof (rule target_render_cases [where Q = ?Q])
    fix g
    show "?Q (S\<lparr>gpu := g\<rparr>)" using that by simp
    show "?Q (S\<lparr>bound_target := Some (curl S), gpu := g\<rparr>)" using that by simp
    show "?Q (snd (seqs [?c5, render R, ?a5, setRenderTarget R None]
            (S\<lparr>bound_target := Some (curl S),
               rendered := rendered S @ [\<lparr>pass_target = Some (curl S), pass_uniforms = material S\<rparr>],
               gpu := g\<rparr>)))"
      by (rule s5) (simp_all add: that)
  qed
  have s3: "?Q (snd (seqs [?c3, render R, ?c4, render R, ?c5, render R, ?a5, setRenderTarget R None] S))"
    if "?same S" and "rendered S = rendered s @ take 2 ?E" for S
  proof (rule target_render_cases [where Q = ?Q])
    fix g
    show "?Q (S\<lparr>gpu := g\<rparr>)" using that by simp
    show "?Q (S\<lparr>bound_target := Some (divergence S), gpu := g\<rparr>)" using that by simp
    show "?Q (snd (seqs [?c4, render R, ?c5, render R, ?a5, setRenderTarget R None]
            (S\<lparr>bound_target := Some (divergence S),
               rendered := rendered S @
                 [\<lparr>pass_target = Some (divergence S), pass_uniforms = material S\<rparr>],
               gpu := g\<rparr>)))"
      by (rule s4) (simp_all add: that)
  qed
  have s2: "?Q (snd (seqs [?c2, render R, ?a2, ?c3, render R, ?c4, render R, ?c5, render R, ?a5,
                           setRenderTarget R None] S))"
    if "?same S" and "rendered S = rendered s @ take 1 ?E" for S
  proof (rule target_render_cases [where Q = ?Q])
    fix g
    show "?Q (S\<lparr>gpu := g\<rparr>)" using that by simp
    show "?Q (S\<lparr>bound_target := Some (write_prop (velocity S)), gpu := g\<rparr>)" using that by simp
    show "?Q (snd (seqs [?a2, ?c3, render R, ?c4, render R, ?c5, render R, ?a5, setRenderTarget R None]
            (S\<lparr>bound_target := Some (write_prop (velocity S)),
               rendered := rendered S @
                 [\<lparr>pass_target = Some (write_prop (velocity S)), pass_uniforms = material S\<rparr>],
               gpu := g\<rparr>)))"
      unfolding seqs_assign by (rule s3) (simp_all add: that swap_write)
  qed
  have s1: "?Q (snd (seqs [?c1, render R, ?a1, ?c2, render R, ?a2, ?c3, render R, ?c4, render R,
                           ?c5, render R, ?a5, setRenderTarget R None] S))"
    if "?same S" and "rendered S = rendered s" for S
  proof (rule target_render_cases [where Q = ?Q])
    fix g
    show "?Q (S\<lparr>gpu := g\<rparr>)" using that by simp
    show "?Q (S\<lparr>bound_target := Some (write_prop (dye S)), gpu := g\<rparr>)" using that by simp
    show "?Q (snd (seqs [?a1, ?c2, render R, ?a2, ?c3, render R, ?c4, render R, ?c5, render R, ?a5,
                         setRenderTarget R None]
            (S\<lparr>bound_target := Some (write_prop (dye S)),
               rendered := rendered S @
                 [\<lparr>pass_target = Some (write_prop (dye S)), pass_uniforms = material S\<rparr>],
               gpu := g\<rparr>)))"
      unfolding seqs_assign by (rule s2) (simp_all add: that swap_write)
  qed
  have "?Q (snd (update R dt s))"
    using False unfolding update_def
    by (simp only: if_True not_False_eq_True seqs_assign) (rule s1, simp_all)
  then show ?thesis by simp
qed

text \<open>
  A renderer that refuses the first target, the plain object \<^verbatim>\<open>this.dye.write\<close>, ends
  the step there: the two uniforms of lines 250-251 are assigned and no pass is
  rendered.
\<close>

lemma update_first_target_refused:
  assumes "\<not> PAUSED (config s)"
    and "R (SetRenderTarget (Some (write_prop (dye s)))) (gpu s) = (Raised e, g)"
  shows "update R dt s =
     (Raised e, s\<lparr>material := (material s)\<lparr>time := time (material s) + dt, deltaT := dt\<rparr>, gpu := g\<rparr>)"
  using assms by (simp add: update_def assign_def setRenderTarget_def)

text \<open>
  A statement list commutes with a change of the state that each of its statements
  commutes with.
\<close>

lemma seqs_commute:
  assumes "\<And>c s. c \<in> set cs \<Longrightarrow> c (T s) = (fst (c s), T (snd (c s)))"
  shows "seqs cs (T s) = (fst (seqs cs s), T (snd (seqs cs s)))"
  using assms
proof (induction cs arbitrary: s)
  case Nil
  then show ?case by simp
next
  case (Cons c cs)
  obtain res s' where c: "c s = (res, s')"
    by (cases "c s")
  have cT: "c (T s) = (res, T s')"
    using Cons.prems [of c s] c by simp
  show ?case
  proof (cases res)
    case Returned
    have "seqs cs (T s') = (fst (seqs cs s'), T (snd (seqs cs s')))"
      using Cons.IH [of s'] Cons.prems by simp
    with c cT Returned show ?thesis by simp
  next
    case (Raised e)
    with c cT show ?thesis by simp
  qed
qed

lemma setRenderTarget_commute:
  "setRenderTarget R t (s\<lparr>config := f (config s)\<rparr>) =
     (fst (setRenderTarget R t s),
      (snd (setRenderTarget R t s))\<lparr>config := f (config (snd (setRenderTarget R t s)))\<rparr>)"
  by (simp add: setRenderTarget_def split: prod.splits outcome.splits)

lemma render_commute:
  "render R (s\<lparr>config := f (config s)\<rparr>) =
     (fst (render R s), (snd (render R s))\<lparr>config := f (config (snd (render R s)))\<rparr>)"
  by (simp add: render_def Let_def split: prod.splits outcome.splits)

text \<open>
  \<^verbatim>\<open>update\<close> reads one field of the configuration, \<^verbatim>\<open>PAUSED\<close>: a change of the
  configuration that keeps \<^verbatim>\<open>PAUSED\<close> can as well be made after the call.
\<close>

lemma update_commute:
  assumes "PAUSED (f (config s)) = PAUSED (config s)"
  shows "update R dt (s\<lparr>config := f (config s)\<rparr>) =
     (fst (update R dt s), (snd (update R dt s))\<lparr>config := f (config (snd (update R dt s)))\<rparr>)"
proof (cases "PAUSED (config s)")
  case True
  with assms show ?thesis by (simp add: update_def)
next
  case False
  let ?T = "\<lambda>s::'a fluid. s\<lparr>config := f (config s)\<rparr>"
  let ?cs = "[assign (\<lambda>s. s\<lparr>material := (material s)\<lparr>time := time (material s) + dt\<rparr>\<rparr>),
           assign (\<lambda>s. s\<lparr>material := (material s)\<lparr>deltaT := dt\<rparr>\<rparr>),
           (\<lambda>s. setRenderTarget R (Some (write_prop (dye s))) s),
           render R,
           assign (\<lambda>s. s\<lparr>dye := swap (dye s)\<rparr>),
           (\<lambda>s. setRenderTarget R (Some (write_prop (velocity s))) s),
           render R,
           assign (\<lambda>s. s\<lparr>velocity := swap (velocity s)\<rparr>),
           (\<lambda>s. setRenderTarget R (Some (divergence s)) s),
           render R,
           (\<lambda>s. setRenderTarget R (Some (curl s)) s),
           render R,
           (\<lambda>s. setRenderTarget R (Some (write_prop (pressure s))) s),
           render R,
           assign (\<lambda>s. s\<lparr>pressure := swap (pressure s)\<rparr>),
           setRenderTarget R None]"
  have "seqs ?cs (?T s) = (fst (seqs ?cs s), ?T (snd (seqs ?cs s)))"
  proof (rule seqs_commute)
    fix c s
    assume "c \<in> set ?cs"
    then show "c (?T s) = (fst (c s), ?T (snd (c s)))"
      by (auto simp add: assign_def setRenderTarget_commute render_commute)
  qed
  with False assms show ?thesis
    by (simp add: update_def)
qed

text \<open>The step on the example instance, with the renderer that accepts every call.\<close>

lemma example_step:
  "fst (update log_executor 0.016 example_fluid) = Returned
   \<and> map pass_target (rendered (snd (update log_executor 0.016 example_fluid))) =
       [Some \<lparr>texture = 2, target = 3\<rparr>, Some \<lparr>texture = 6, target = 7\<rparr>,
        Some \<lparr>texture = 8, target = 9\<rparr>, Some \<lparr>texture = 10, target = 11\<rparr>,
        Some \<lparr>texture = 14, target = 15\<rparr>]
   \<and> divergence example_fluid = \<lparr>texture = 8, target = 9\<rparr>
   \<and> curl example_fluid = \<lparr>texture = 10, target = 11\<rparr>
   \<and> map (\<lambda>p. (dyeTexture (pass_uniforms p), velocityTexture (pass_uniforms p)))
        (rendered (snd (update log_executor 0.016 example_fluid))) =
       [(None, None), (None, None), (None, None), (None, None), (None, None)]
   \<and> PRESSURE_ITERATIONS (config example_fluid) = 20"
  by (simp add: update_returns [OF example_not_paused log_executor_returns]
        update_rendered [OF example_not_paused log_executor_returns])
     (simp add: example_fluid_eval initial_config_def)

text \<open>
  C3 (the code departs from the claim). For every state, every \<open>dt\<close> and every
  renderer, the passes one call of \<^verbatim>\<open>update\<close> renders go, as far as the renderer lets
  the step come, into \<^verbatim>\<open>dye.write\<close>, \<^verbatim>\<open>velocity.write\<close>, \<^verbatim>\<open>divergence\<close>, \<^verbatim>\<open>curl\<close>,
  \<^verbatim>\<open>pressure.write\<close>, in this order: at most five passes, and the pass into \<^verbatim>\<open>divergence\<close>
  before the pass into \<^verbatim>\<open>curl\<close>. Each of them runs with the uniforms \<^verbatim>\<open>dyeTexture\<close> and
  \<^verbatim>\<open>velocityTexture\<close> at the values they had before the call: \<^verbatim>\<open>update\<close> binds no
  texture, so no pass is given the output of the pass before it.
\<close>

theorem C3_update_pass_sequence:
  "(let new = drop (length (rendered s)) (rendered (snd (update R dt s)))
    in map pass_target new =
         take (length new)
           [Some (write_prop (dye s)), Some (write_prop (velocity s)), Some (divergence s),
            Some (curl s), Some (write_prop (pressure s))]
       \<and> map (\<lambda>p. dyeTexture (pass_uniforms p)) new =
           replicate (length new) (dyeTexture (material s))
       \<and> map (\<lambda>p. velocityTexture (pass_uniforms p)) new =
           replicate (length new) (velocityTexture (material s)))"
proof -
  let ?k = "length (rendered (snd (update R dt s))) - length (rendered s)"
  note new = update_new_passes [of s R dt]
  consider "?k = 0" | "?k = 1" | "?k = 2" | "?k = 3" | "?k = 4" | "5 \<le> ?k"
    by linarith
  then show ?thesis
  proof cases
    case 1
    with new show ?thesis by (simp add: Let_def)
  next
    case 2
    with new show ?thesis by (simp add: Let_def)
  next
    case 3
    with new show ?thesis by (simp add: Let_def)
  next
    case 4
    with new show ?thesis by (simp add: Let_def)
  next
    case 5
    with new show ?thesis by (simp add: Let_def)
  next
    case 6
    with new show ?thesis by (simp add: Let_def)
  qed
qed

text \<open>
  C4 (the code departs from the claim). \<^verbatim>\<open>update\<close> does not read
  \<^verbatim>\<open>PRESSURE_ITERATIONS\<close>: for every value \<open>n\<close>, every state and every renderer, the
  step run with \<^verbatim>\<open>PRESSURE_ITERATIONS\<close> set to \<open>n\<close> has the outcome of the step run
  without the change and leaves the state that step leaves, with the field set to \<open>n\<close>.
  The whole step renders at most five passes, whatever the value.
\<close>

theorem C4_update_ignores_PRESSURE_ITERATIONS:
  "update R dt (s\<lparr>config := (config s)\<lparr>PRESSURE_ITERATIONS := n\<rparr>\<rparr>) =
     (fst (update R dt s),
      (snd (update R dt s))\<lparr>config := (config (snd (update R dt s)))\<lparr>PRESSURE_ITERATIONS := n\<rparr>\<rparr>)
   \<and> length (drop (length (rendered s)) (rendered (snd (update R dt s)))) \<le> 5"
proof
  show "update R dt (s\<lparr>config := (config s)\<lparr>PRESSURE_ITERATIONS := n\<rparr>\<rparr>) =
     (fst (update R dt s),
      (snd (update R dt s))\<lparr>config := (config (snd (update R dt s)))\<lparr>PRESSURE_ITERATIONS := n\<rparr>\<rparr>)"
    using update_commute [of "\<lambda>c. c\<lparr>PRESSURE_ITERATIONS := n\<rparr>" s R dt] by simp
  have "length (drop (length (rendered s)) (rendered (snd (update R dt s)))) =
      length (take (length (rendered (snd (update R dt s))) - length (rendered s))
       (map (\<lambda>t. \<lparr>pass_target = Some t,
                  pass_uniforms = (material s)\<lparr>time := time (material s) + dt, deltaT := dt\<rparr>\<rparr>)
          [write_prop (dye s), write_prop (velocity s), divergence s, curl s, write_prop (pressure s)]))"
    by (simp only: update_new_passes [of s R dt])
  then show "length (drop (length (rendered s)) (rendered (snd (update R dt s)))) \<le> 5"
    by (simp only: length_take length_map) simp
qed

text \<open>
  C6 (the code departs from the claim). On the example instance the panel's control
  for \<^verbatim>\<open>DENSITY_DISSIPATION\<close> is moved to 0.9, then \<^verbatim>\<open>update(0.016)\<close> runs. The
  configuration holds 0.9, and each of the five passes of the step runs with the
  uniform \<^verbatim>\<open>dissipation\<close> at 0.97, the value \<^verbatim>\<open>createMaterial\<close> copied when the material
  was made.
\<close>

theorem C6_dissipation_latched:
  "DENSITY_DISSIPATION (config (gui_change (Set_DENSITY_DISSIPATION 0.9) example_fluid)) = 0.9
   \<and> map (\<lambda>p. dissipation (pass_uniforms p))
        (rendered (snd (update log_executor 0.016
           (gui_change (Set_DENSITY_DISSIPATION 0.9) example_fluid)))) =
       [0.97, 0.97, 0.97, 0.97, 0.97]"
proof -
  have np: "\<not> PAUSED (config (gui_change (Set_DENSITY_DISSIPATION 0.9) example_fluid))"
    by (simp add: example_fluid_eval initial_config_def)
  from update_after_gui_change [OF np log_executor_returns, of "0.016"]
  show ?thesis
    by (simp add: example_fluid_eval)
qed

subsection \<open>The splat\<close>

text \<open>
  C5 (the code departs from the claim). Every call of \<^verbatim>\<open>splat\<close>, on every instance and
  with every argument, raises a TypeError at line 283. What it leaves behind are the
  three assignments before that line: \<^verbatim>\<open>dyeTexture\<close>, \<^verbatim>\<open>velocityTexture\<close> and
  \<^verbatim>\<open>splatRadius\<close>. No pass is rendered, no target is bound and no Double Buffer is
  swapped.
\<close>

theorem C5_splat_raises:
  "splat R x y dx dy color s =
     (Raised TypeError,
      s\<lparr>material := (material s)\<lparr>dyeTexture := Some (texture (read_prop (dye s))),
                                   velocityTexture := Some (texture (read_prop (velocity s))),
                                   splatRadius := SPLAT_RADIUS (config s) / 100\<rparr>\<rparr>)"
  by (simp add: splat_def seqs_assign assign_splatForce_def seqs_throw del: seqs.simps(2))

text \<open>
  C10. Two calls of \<^verbatim>\<open>splat\<close> from the same state, with any two positions, impulses
  and colours, have the same outcome and leave the same state.
\<close>

theorem C10_splat_ignores_arguments:
  "splat R x1 y1 dx1 dy1 color1 s = splat R x2 y2 dx2 dy2 color2 s"
  by (simp add: splat_def)

subsection \<open>Cleanup and resize\<close>

text \<open>
  C7 (the code departs from the claim). The cleanup of the effect calls
  \<^verbatim>\<open>fluidSimRef.current.dispose()\<close> (line 513). Class \<^verbatim>\<open>Fluid\<close> declares no method of that
  name, so the call raises a TypeError whatever a body would do, and the instance is as
  it was: no buffer is released and nothing records that a disposal was asked for.
\<close>

theorem C7_dispose_is_no_method:
  "call_method ''dispose'' body s = (Raised TypeError, s)"
  by (simp add: call_method_def Fluid_methods_def throw_def)

lemma onWindowResize_eval:
  "onWindowResize width height s =
     (Returned,
      s\<lparr>size_xy := (width, height), renderTarget := length (objects s),
        objects := objects s @
          [WebGLRenderTarget width height (texture_type_of s) (Some ClampToEdgeWrapping) LinearFilter]\<rparr>)"
  by (simp add: onWindowResize_def createRenderTarget_def seqs_assign new_object_def
      texture_type_of_def assign_def del: seqs.simps(2))

text \<open>
  C8, as amended. After \<^verbatim>\<open>resize(w1, h1)\<close> then \<^verbatim>\<open>resize(w2, h2)\<close>, both of which
  return, the simulation's size is \<open>(w2, h2)\<close> and its \<^verbatim>\<open>renderTarget\<close>, the one buffer
  sized by the window, is a new render target of size \<open>(w2, h2)\<close>; the target made for
  \<open>(w1, h1)\<close> is no longer the one the simulation refers to. The objects that existed
  before are untouched and the five fields \<^verbatim>\<open>dye\<close>, \<^verbatim>\<open>velocity\<close>, \<^verbatim>\<open>divergence\<close>, \<^verbatim>\<open>curl\<close>,
  \<^verbatim>\<open>pressure\<close> hold the buffers they held, at the sizes the resolutions gave them.
\<close>

theorem C8_resize_twice:
  "(let s1 = snd (onWindowResize w1 h1 s); s2 = snd (onWindowResize w2 h2 s1)
    in fst (onWindowResize w1 h1 s) = Returned \<and> fst (onWindowResize w2 h2 s1) = Returned
       \<and> size_xy s2 = (w2, h2)
       \<and> objects s2 ! renderTarget s2 =
           WebGLRenderTarget w2 h2 (texture_type_of s) (Some ClampToEdgeWrapping) LinearFilter
       \<and> renderTarget s2 \<noteq> renderTarget s1
       \<and> take (length (objects s)) (objects s2) = objects s
       \<and> dye s2 = dye s \<and> velocity s2 = velocity s \<and> divergence s2 = divergence s
       \<and> curl s2 = curl s \<and> pressure s2 = pressure s)"
  by (simp add: onWindowResize_eval Let_def texture_type_of_def nth_append)

text \<open>
  C8 as stated fails on the example instance, resized to 1024 by 768 and then to
  640 by 480: the buffers of \<^verbatim>\<open>dye\<close> are still 512 by 512 and the buffer of \<^verbatim>\<open>divergence\<close>
  128 by 128, none is 640 by 480; and the render target made for 1024 by 768 is still in
  the object table, where nothing has disposed of it.
\<close>

theorem C8_resize_counterexample:
  "(let s2 = snd (onWindowResize 640 480 (snd (onWindowResize 1024 768 example_fluid)))
    in objects s2 ! target (read_prop (dye s2)) = WebGLRenderTarget 512 512 FloatType None LinearFilter
       \<and> objects s2 ! target (write_prop (dye s2)) = WebGLRenderTarget 512 512 FloatType None LinearFilter
       \<and> objects s2 ! target (divergence s2) =
           WebGLRenderTarget 128 128 FloatType (Some RepeatWrapping) NearestFilter
       \<and> WebGLRenderTarget 1024 768 FloatType (Some ClampToEdgeWrapping) LinearFilter \<in> set (objects s2))"
  by (simp add: onWindowResize_eval Let_def texture_type_of_def example_fluid_eval)

end
